theory Spec2Isabelle
  imports Complex_Main
begin

section \<open>Configuration check at import time (bot.py, lines 21--26)\<close>

text \<open>
  \<^verbatim>\<open>os.getenv\<close> reads the process environment, a dictionary from names to strings, and
  returns \<^verbatim>\<open>None\<close> for a name that is not set. The module raises \<^verbatim>\<open>ValueError\<close>
  unless all three values are truthy; a string is truthy when it is not empty.
\<close>

type_synonym environ = "string \<rightharpoonup> string"

datatype startup_error = ValueError

record config =
  EDAMAM_APP_ID :: string
  EDAMAM_APP_KEY :: string
  BOT_TOKEN :: string

definition getenv :: "environ \<Rightarrow> string \<Rightarrow> string option" where
  "getenv env name = env name"

definition truthy_str :: "string option \<Rightarrow> bool" where
  "truthy_str v = (case v of None \<Rightarrow> False | Some s \<Rightarrow> s \<noteq> [])"

definition load_config :: "environ \<Rightarrow> startup_error + config" where
  "load_config env =
     (let app_id = getenv env ''EDAMAM_APP_ID'';
          app_key = getenv env ''EDAMAM_APP_KEY'';
          token = getenv env ''BOT_TOKEN''
      in if \<not> list_all truthy_str [app_id, app_key, token] then Inl ValueError
         else Inr \<lparr>EDAMAM_APP_ID = the app_id, EDAMAM_APP_KEY = the app_key,
                   BOT_TOKEN = the token\<rparr>)"

section \<open>Python's string methods on ASCII text\<close>

text \<open>
  A Python string is carried as a \<^typ>\<open>string\<close>, the list of the bytes of its UTF-8
  encoding: concatenation, emptiness and equality are those of the list. What Python
  computes from the Unicode tables (\<^verbatim>\<open>str.lower\<close>, \<^verbatim>\<open>str.strip\<close>, \<^verbatim>\<open>str.split\<close>,
  \<^verbatim>\<open>str.capitalize\<close>) and \<^verbatim>\<open>float\<close> are not defined here: the handlers receive them
  as parameters, in the record \<open>services\<close> below. The functions of this section and
  \<open>py_float\<close> of the next are those methods on ASCII text; they are the instance on which
  the examples run. The Cyrillic literals of the source are written in Latin
  transliteration.
\<close>

definition isspace :: "char \<Rightarrow> bool" where
  \<comment> \<open>\<^verbatim>\<open>str.isspace\<close> below 128: tab, LF, VT, FF, CR, the separators 28--31 and the blank\<close>
  "isspace c = (c \<in> set [CHR 0x09, CHR 0x0A, CHR 0x0B, CHR 0x0C, CHR 0x0D,
                           CHR 0x1C, CHR 0x1D, CHR 0x1E, CHR 0x1F, CHR 0x20])"

definition upper_letters :: string where
  "upper_letters = ''ABCDEFGHIJKLMNOPQRSTUVWXYZ''"

definition lower_letters :: string where
  "lower_letters = ''abcdefghijklmnopqrstuvwxyz''"

definition lower_char :: "char \<Rightarrow> char" where
  "lower_char c = (case map_of (zip upper_letters lower_letters) c of None \<Rightarrow> c | Some l \<Rightarrow> l)"

definition upper_char :: "char \<Rightarrow> char" where
  "upper_char c = (case map_of (zip lower_letters upper_letters) c of None \<Rightarrow> c | Some u \<Rightarrow> u)"

definition lower :: "string \<Rightarrow> string" where
  "lower s = map lower_char s"

definition capitalize :: "string \<Rightarrow> string" where
  \<comment> \<open>\<^verbatim>\<open>str.capitalize\<close>: first character upper case, the rest lower case\<close>
  "capitalize s = (case s of [] \<Rightarrow> [] | c # cs \<Rightarrow> upper_char c # map lower_char cs)"

definition strip :: "string \<Rightarrow> string" where
  "strip s = rev (dropWhile isspace (rev (dropWhile isspace s)))"

fun split_from :: "string \<Rightarrow> string \<Rightarrow> string list" where
  \<comment> \<open>\<^verbatim>\<open>str.split()\<close> with no argument; the first argument is the word being read\<close>
  "split_from w [] = (if w = [] then [] else [w])"
| "split_from w (c # cs) =
     (if isspace c then (if w = [] then split_from [] cs else w # split_from [] cs)
      else split_from (w @ [c]) cs)"

definition split :: "string \<Rightarrow> string list" where
  "split s = split_from [] s"

fun join :: "string \<Rightarrow> string list \<Rightarrow> string" where
  \<comment> \<open>\<^verbatim>\<open>sep.join(parts)\<close>\<close>
  "join sep [] = []"
| "join sep [p] = p"
| "join sep (p # q # ps) = p @ sep @ join sep (q # ps)"

section \<open>Python floats\<close>

text \<open>
  A float is a finite value, an infinity or NaN. Finite values are carried as the rational
  numbers they denote; the sign of zero is left out. Comparisons with NaN are false, as in
  Python. \<open>fadd\<close> adds the denoted numbers and \<open>py_float\<close> reads a decimal numeral of
  ASCII digits, both without the rounding to 53 bits.
\<close>

datatype pyfloat = Finite rat | PosInf | NegInf | NaN

fun fle :: "pyfloat \<Rightarrow> pyfloat \<Rightarrow> bool" where
  \<comment> \<open>\<^verbatim>\<open>a <= b\<close>\<close>
  "fle NaN _ = False"
| "fle _ NaN = False"
| "fle NegInf _ = True"
| "fle _ PosInf = True"
| "fle (Finite x) (Finite y) = (x \<le> y)"
| "fle PosInf _ = False"
| "fle (Finite _) NegInf = False"

fun fgt :: "pyfloat \<Rightarrow> pyfloat \<Rightarrow> bool" where
  \<comment> \<open>\<^verbatim>\<open>a > b\<close>\<close>
  "fgt NaN _ = False"
| "fgt _ NaN = False"
| "fgt (Finite x) (Finite y) = (x > y)"
| "fgt NegInf _ = False"
| "fgt _ PosInf = False"
| "fgt PosInf _ = True"
| "fgt (Finite _) NegInf = True"

fun fadd :: "pyfloat \<Rightarrow> pyfloat \<Rightarrow> pyfloat" where
  \<comment> \<open>\<^verbatim>\<open>a + b\<close>\<close>
  "fadd NaN _ = NaN"
| "fadd _ NaN = NaN"
| "fadd PosInf NegInf = NaN"
| "fadd NegInf PosInf = NaN"
| "fadd PosInf _ = PosInf"
| "fadd _ PosInf = PosInf"
| "fadd NegInf _ = NegInf"
| "fadd _ NegInf = NegInf"
| "fadd (Finite x) (Finite y) = Finite (x + y)"

subsection \<open>\<^verbatim>\<open>float(token)\<close>\<close>

definition is_digit :: "char \<Rightarrow> bool" where
  "is_digit c = (c \<in> set ''0123456789'')"

definition digit_val :: "char \<Rightarrow> nat" where
  "digit_val c =
     (case map_of (zip ''0123456789'' [0, 1, 2, 3, 4, 5, 6, 7, 8, 9]) c of
        None \<Rightarrow> 0 | Some v \<Rightarrow> v)"

fun digitpart :: "nat \<Rightarrow> nat \<Rightarrow> string \<Rightarrow> nat \<times> nat \<times> string" where
  \<comment> \<open>reads digits, single underscores allowed between two digits; returns the value read,
      the number of digits and the text that is left\<close>
  "digitpart v n [] = (v, n, [])"
| "digitpart v n [c] = (if is_digit c then (10 * v + digit_val c, Suc n, []) else (v, n, [c]))"
| "digitpart v n (c # d # cs) =
     (if is_digit c then digitpart (10 * v + digit_val c) (Suc n) (d # cs)
      else if c = CHR ''_'' \<and> 0 < n \<and> is_digit d then digitpart v n (d # cs)
      else (v, n, c # d # cs))"

definition sign_of :: "string \<Rightarrow> bool \<times> string" where
  "sign_of s = (case s of [] \<Rightarrow> (False, [])
     | c # cs \<Rightarrow> if c = CHR ''-'' then (True, cs) else if c = CHR ''+'' then (False, cs)
                else (False, s))"

definition decimal :: "string \<Rightarrow> rat option" where
  \<comment> \<open>digits, an optional fraction and an optional exponent; at least one digit before the
      exponent\<close>
  "decimal s =
     (let (ip, n1, r1) = digitpart 0 0 s;
          (fp, n2, r2) = (case r1 of [] \<Rightarrow> (0, 0, r1)
                          | c # t \<Rightarrow> if c = CHR ''.'' then digitpart 0 0 t else (0, 0, r1))
      in if n1 + n2 = 0 then None
         else let m = of_nat ip + of_nat fp / 10 ^ n2
              in (case r2 of [] \<Rightarrow> Some m
                  | c # t \<Rightarrow>
                      if c = CHR ''e'' \<or> c = CHR ''E'' then
                        (let (eneg, t') = sign_of t; (ex, n3, r3) = digitpart 0 0 t'
                         in if n3 = 0 \<or> r3 \<noteq> [] then None
                            else Some (if eneg then m / 10 ^ ex else m * 10 ^ ex))
                      else None))"

definition py_float :: "string \<Rightarrow> pyfloat option" where
  \<comment> \<open>\<^verbatim>\<open>float(s)\<close> for a string; \<open>None\<close> stands for \<^verbatim>\<open>ValueError\<close>\<close>
  "py_float s =
     (let (neg, body) = sign_of (strip s); word = lower body
      in if word = ''inf'' \<or> word = ''infinity'' then Some (if neg then NegInf else PosInf)
         else if word = ''nan'' then Some NaN
         else (case decimal body of None \<Rightarrow> None
               | Some r \<Rightarrow> Some (Finite (if neg then - r else r))))"

subsection \<open>The format \<^verbatim>\<open>:.2f\<close>\<close>

definition digit_char :: "nat \<Rightarrow> char" where
  "digit_char n = ''0123456789'' ! (n mod 10)"

fun string_of_nat :: "nat \<Rightarrow> string" where
  "string_of_nat n =
     (if n < 10 then [digit_char n] else string_of_nat (n div 10) @ [digit_char n])"

definition round_half_even :: "rat \<Rightarrow> int" where
  "round_half_even x =
     (let f = \<lfloor>x\<rfloor>; d = x - of_int f
      in if d < 1 / 2 then f else if 1 / 2 < d then f + 1 else if even f then f else f + 1)"

definition fmt2f :: "pyfloat \<Rightarrow> string" where
  "fmt2f x = (case x of
       Finite r \<Rightarrow>
         (let n = nat (round_half_even (\<bar>r\<bar> * 100))
          in (if r < 0 then ''-'' else []) @ string_of_nat (n div 100) @ ''.''
             @ [digit_char (n div 10), digit_char n])
     | PosInf \<Rightarrow> ''inf''
     | NegInf \<Rightarrow> ''-inf''
     | NaN \<Rightarrow> ''nan'')"

section \<open>External collaborators\<close>

text \<open>
  The translator, the HTTP client, the messaging transport and the functions of Python
  that depend on the Unicode tables or on binary floating point (the string methods,
  \<^verbatim>\<open>float(s)\<close> and the shortest \<^verbatim>\<open>str(x)\<close> of a float) are outside the repository; a
  handler receives them as a record of functions. A call that raises returns the
  constructor that names the exception; \<open>to_float s = None\<close> is \<^verbatim>\<open>ValueError\<close>.
\<close>

datatype message = Plain string | Markdown string

datatype translated = TranslateRaises | Translated "string option"

record api_data =
  data_calories :: "pyfloat option"
  data_totalNutrients :: "(string \<times> pyfloat option) list option"

datatype http_response = RequestException | OtherException | Data api_data

record services =
  translate :: "string \<Rightarrow> translated"
  http_get :: "string \<Rightarrow> http_response"
  send_message :: "int \<Rightarrow> message \<Rightarrow> bool"
  str_lower :: "string \<Rightarrow> string"
  str_strip :: "string \<Rightarrow> string"
  str_split :: "string \<Rightarrow> string list"
  str_capitalize :: "string \<Rightarrow> string"
  to_float :: "string \<Rightarrow> pyfloat option"
  float_str :: "pyfloat \<Rightarrow> string"

text \<open>
  \<open>Translated None\<close> is a translator that returns \<^verbatim>\<open>None\<close>. \<open>http_get\<close> takes the
  \<^verbatim>\<open>ingr\<close> parameter of the request; \<open>RequestException\<close> covers a failed request and a
  failed \<^verbatim>\<open>raise_for_status\<close>, \<open>OtherException\<close> any other exception raised while the
  response is read. In \<open>api_data\<close> a field is \<open>None\<close> when the key is absent from the
  JSON object; a nutrient is the value of its \<^verbatim>\<open>quantity\<close> key, \<open>None\<close> when it has none.
  A message is sent plain or with \<^verbatim>\<open>parse_mode='Markdown'\<close>;
  \<open>send_message chat_id msg\<close> is \<open>False\<close> when the transport raises.
\<close>

section \<open>Nutrient lookup (bot.py, lines 66--93)\<close>

record nutrition =
  kalorii :: pyfloat
  belki :: pyfloat
  zhiry :: pyfloat
  uglevody :: pyfloat

definition quantity_of :: "(string \<times> pyfloat option) list \<Rightarrow> string \<Rightarrow> pyfloat" where
  \<comment> \<open>\<^verbatim>\<open>nutrients.get(key, {}).get('quantity', 0)\<close>\<close>
  "quantity_of nutrients key =
     (case map_of nutrients key of None \<Rightarrow> Finite 0
      | Some None \<Rightarrow> Finite 0
      | Some (Some q) \<Rightarrow> q)"

definition get_nutrition :: "services \<Rightarrow> string \<Rightarrow> pyfloat \<Rightarrow> nutrition option" where
  "get_nutrition sv product amount =
     (case http_get sv (float_str sv amount @ ''g '' @ product) of
        RequestException \<Rightarrow> None
      | OtherException \<Rightarrow> None
      | Data data \<Rightarrow>
          (case data_totalNutrients data of
             None \<Rightarrow> None
           | Some nutrients \<Rightarrow>
               if nutrients = [] then None
               else Some \<lparr>kalorii = (case data_calories data of None \<Rightarrow> Finite 0 | Some c \<Rightarrow> c),
                          belki = quantity_of nutrients ''PROCNT'',
                          zhiry = quantity_of nutrients ''FAT'',
                          uglevody = quantity_of nutrients ''CHOCDF''\<rparr>))"

section \<open>The database (bot.py, lines 39--63)\<close>

text \<open>
  Two tables, each a list of rows in insertion order. \<open>entry_id\<close> is the
  \<^verbatim>\<open>AUTOINCREMENT\<close> key: no row is ever deleted, so the next key is one more than the number of
  rows.
\<close>

record entry =
  entry_id :: nat
  user_id :: int
  date :: string
  product :: string
  amount :: pyfloat
  calories :: pyfloat
  proteins :: pyfloat
  fats :: pyfloat
  carbs :: pyfloat

record db =
  users :: "(int \<times> int) list"
  entries :: "entry list"

definition empty_db :: db where
  "empty_db = \<lparr>users = [], entries = []\<rparr>"

type_synonym row = "string \<times> pyfloat \<times> pyfloat \<times> pyfloat \<times> pyfloat \<times> pyfloat"

definition select_user :: "db \<Rightarrow> int \<Rightarrow> (int \<times> int) option" where
  \<comment> \<open>\<^verbatim>\<open>SELECT * FROM users WHERE user_id = ?\<close> followed by \<^verbatim>\<open>fetchone()\<close>\<close>
  "select_user d uid = find (\<lambda>u. fst u = uid) (users d)"

definition ensure_user :: "db \<Rightarrow> int \<Rightarrow> int \<Rightarrow> db" where
  \<comment> \<open>lines 101--104 of \<^verbatim>\<open>start\<close> and, word for word, lines 174--177 of \<^verbatim>\<open>add_product\<close>\<close>
  "ensure_user d uid cid =
     (if select_user d uid = None then d\<lparr>users := users d @ [(uid, cid)]\<rparr> else d)"

definition insert_entry ::
  "db \<Rightarrow> int \<Rightarrow> string \<Rightarrow> string \<Rightarrow> pyfloat \<Rightarrow> nutrition \<Rightarrow> db" where
  \<comment> \<open>the \<^verbatim>\<open>INSERT INTO entries\<close> of lines 181--194. The row holds the values that are
      bound; SQLite coerces one of them, a NaN, which it stores as \<^verbatim>\<open>NULL\<close>\<close>
  "insert_entry d uid date_str product_russian amt n =
     d\<lparr>entries := entries d @
        [\<lparr>entry_id = Suc (length (entries d)), user_id = uid, date = date_str,
          product = product_russian, amount = amt, calories = kalorii n,
          proteins = belki n, fats = zhiry n, carbs = uglevody n\<rparr>]\<rparr>"

definition row_of :: "entry \<Rightarrow> row" where
  "row_of e = (product e, amount e, calories e, proteins e, fats e, carbs e)"

definition select_entries :: "db \<Rightarrow> int \<Rightarrow> string \<Rightarrow> row list" where
  \<comment> \<open>\<^verbatim>\<open>SELECT product, amount, calories, proteins, fats, carbs FROM entries
      WHERE user_id = ? AND date = ?\<close> followed by \<^verbatim>\<open>fetchall()\<close>\<close>
  "select_entries d uid date_str =
     map row_of (filter (\<lambda>e. user_id e = uid \<and> date e = date_str) (entries d))"

definition select_users :: "db \<Rightarrow> (int \<times> int) list" where
  \<comment> \<open>\<^verbatim>\<open>SELECT chat_id, user_id FROM users\<close>: \<^verbatim>\<open>user_id\<close> is the
      \<^verbatim>\<open>INTEGER PRIMARY KEY\<close>, and the scan of the table returns the rows by ascending key\<close>
  "select_users d = map (\<lambda>(uid, cid). (cid, uid)) (sort_key fst (users d))"

section \<open>Handlers\<close>

text \<open>
  A handler takes the services, the database, the user and chat of the update and the
  current date (\<^verbatim>\<open>datetime.now().strftime("%Y-%m-%d")\<close>), and returns what it writes and
  what it sends. In \<^verbatim>\<open>start\<close>, \<^verbatim>\<open>add_product\<close> and \<^verbatim>\<open>report\<close> the reply is the last
  statement of every path, so a transport failure there changes nothing that is returned.
\<close>

definition msg_welcome :: string where
  "msg_welcome = ''Dobro pozhalovat v bot 'Zdorovoe pitanie'!\<newline>''
     @ ''Otpravte nazvanie produkta i ego kolichestvo, naprimer:\<newline>''
     @ ''yabloko 200\<newline>ris 100\<newline>kurinaya grudka 200\<newline>\<newline>''
     @ ''Ispolzuyte komandu /help dlya prosmotra vsekh dostupnykh komand.''"

definition msg_empty_input :: string where
  "msg_empty_input =
     ''Pozhaluysta, vvedite nazvanie produkta i ego kolichestvo, naprimer: yabloko 200''"

definition msg_two_parts :: string where
  "msg_two_parts = ''Pozhaluysta, vvedite produkt i ego kolichestvo, naprimer: yabloko 200''"

definition msg_range :: string where
  "msg_range = ''Pozhaluysta, vvedite kolichestvo ot 1 do 5000 gramm.''"

definition msg_not_a_number :: string where
  "msg_not_a_number = ''Pozhaluysta, vvedite korrektnoe kolichestvo, naprimer: 100''"

definition msg_translate_error :: string where
  "msg_translate_error =
     ''Proizoshla oshibka pri perevode nazvaniya produkta. Poprobuyte snova.''"

definition msg_translate_empty :: string where
  "msg_translate_empty =
     ''Ne udalos perevesti nazvanie produkta. Proverte vvod i poprobuyte snova.''"

definition msg_lookup_failed :: string where
  "msg_lookup_failed = ''Izvinite, ne udalos poluchit informatsiyu o produkte. ''
     @ ''Proverte nazvanie i poprobuyte snova.''"

definition msg_nothing_today :: string where
  "msg_nothing_today = ''Vy nichego ne zapisali segodnya.''"

subsection \<open>\<^verbatim>\<open>start\<close> (lines 95--114)\<close>

definition start :: "db \<Rightarrow> int \<Rightarrow> int \<Rightarrow> db \<times> message" where
  "start d uid cid = (ensure_user d uid cid, Plain msg_welcome)"

subsection \<open>\<^verbatim>\<open>add_product\<close> (lines 129--201)\<close>

definition parse_input :: "services \<Rightarrow> string \<Rightarrow> string + string \<times> pyfloat" where
  \<comment> \<open>lines 130--147: \<open>Inl\<close> is the text of the reply that rejects the input, \<open>Inr\<close> the
      product name and the amount\<close>
  "parse_input sv text =
     (let user_input = str_strip sv (str_lower sv text)
      in if user_input = [] then Inl msg_empty_input
         else let parts = str_split sv user_input
              in if length parts < 2 then Inl msg_two_parts
                 else (case to_float sv (last parts) of
                         None \<Rightarrow> Inl msg_not_a_number
                       | Some amt \<Rightarrow>
                           if fle amt (Finite 0) \<or> fgt amt (Finite 5000) then Inl msg_range
                           else Inr (join '' '' (butlast parts), amt)))"

definition lookup :: "services \<Rightarrow> string \<Rightarrow> pyfloat \<Rightarrow> string + nutrition" where
  \<comment> \<open>lines 149--166: translation, then the nutrient request\<close>
  "lookup sv product_russian amt =
     (case translate sv product_russian of
        TranslateRaises \<Rightarrow> Inl msg_translate_error
      | Translated product_english \<Rightarrow>
          if product_english = None \<or> product_english = Some [] then Inl msg_translate_empty
          else (case get_nutrition sv (the product_english) amt of
                  None \<Rightarrow> Inl msg_lookup_failed
                | Some n \<Rightarrow> Inr n))"

definition msg_added :: "services \<Rightarrow> string \<Rightarrow> pyfloat \<Rightarrow> nutrition \<Rightarrow> string" where
  "msg_added sv product_russian amt n =
     ''Dobavleno: '' @ product_russian @ '' - '' @ float_str sv amt @ '' g\<newline>''
     @ ''Kalorii: '' @ fmt2f (kalorii n) @ '' kkal\<newline>''
     @ ''Belki: '' @ fmt2f (belki n) @ '' g, Zhiry: '' @ fmt2f (zhiry n)
     @ '' g, Uglevody: '' @ fmt2f (uglevody n) @ '' g''"

definition add_product ::
  "services \<Rightarrow> db \<Rightarrow> int \<Rightarrow> int \<Rightarrow> string \<Rightarrow> string \<Rightarrow> db \<times> message" where
  "add_product sv d uid cid date_str text =
     (case parse_input sv text of
        Inl reply \<Rightarrow> (d, Plain reply)
      | Inr (product_russian, amt) \<Rightarrow>
          (case lookup sv product_russian amt of
             Inl reply \<Rightarrow> (d, Plain reply)
           | Inr n \<Rightarrow>
               (insert_entry (ensure_user d uid cid) uid date_str product_russian amt n,
                Plain (msg_added sv product_russian amt n))))"

subsection \<open>The report (lines 216--236 and, with another header, lines 259--279)\<close>

type_synonym totals = "pyfloat \<times> pyfloat \<times> pyfloat \<times> pyfloat"

definition report_line :: "services \<Rightarrow> row \<Rightarrow> string" where
 "report_line sv r = (let (product, amount, calories, proteins, fats, carbs) = r in
     ''- '' @ str_capitalize sv product @ '': '' @ float_str sv amount @ '' g\<newline>''
     @ ''  Kalorii: '' @ fmt2f calories @ '' kkal, ''
     @ ''B: '' @ fmt2f proteins @ '' g, Zh: '' @ fmt2f fats @ '' g, U: '' @ fmt2f carbs
     @ '' g\<newline>'')"

fun report_loop :: "services \<Rightarrow> row list \<Rightarrow> totals \<times> string list \<Rightarrow> totals \<times> string list" where
  \<comment> \<open>the \<^verbatim>\<open>for\<close> loop over the rows: the four running totals and \<^verbatim>\<open>report_lines\<close>\<close>
  "report_loop sv [] acc = acc"
| "report_loop sv (r # rows) acc =
     (let (product, amount, calories, proteins, fats, carbs) = r;
          ((total_calories, total_proteins, total_fats, total_carbs), report_lines) = acc
      in report_loop sv rows
            ((fadd total_calories calories, fadd total_proteins proteins,
              fadd total_fats fats, fadd total_carbs carbs),
             report_lines @ [report_line sv r]))"

definition totals_text :: "totals \<Rightarrow> string" where
  "totals_text t = (case t of (total_calories, total_proteins, total_fats, total_carbs) \<Rightarrow>
     ''\<newline>*Itogo za den:*\<newline>''
     @ ''Kalorii: '' @ fmt2f total_calories @ '' kkal\<newline>''
     @ ''Belki: '' @ fmt2f total_proteins @ '' g\<newline>''
     @ ''Zhiry: '' @ fmt2f total_fats @ '' g\<newline>''
     @ ''Uglevody: '' @ fmt2f total_carbs @ '' g'')"

definition zero_totals :: totals where
  "zero_totals = (Finite 0, Finite 0, Finite 0, Finite 0)"

definition aggregate :: "services \<Rightarrow> row list \<Rightarrow> totals" where
  \<comment> \<open>the totals the loop ends with\<close>
  "aggregate sv rows = fst (report_loop sv rows (zero_totals, []))"

definition render :: "services \<Rightarrow> string \<Rightarrow> row list \<Rightarrow> string" where
  \<comment> \<open>from \<^verbatim>\<open>total_calories = ... = 0\<close> to \<^verbatim>\<open>''.join(report_lines)\<close>\<close>
  "render sv header rows =
     (case report_loop sv rows (zero_totals, [header]) of
        (t, report_lines) \<Rightarrow> concat (report_lines @ [totals_text t]))"

definition report_header :: "string \<Rightarrow> string" where
  "report_header date_str = ''[chart] *Otchet za '' @ date_str @ '':*\<newline>''"

definition daily_header :: "string \<Rightarrow> string" where
  "daily_header date_str = ''[chart] *Avtomaticheskiy otchet za '' @ date_str @ '':*\<newline>''"

subsection \<open>\<^verbatim>\<open>report\<close> (lines 203--237)\<close>

definition report :: "services \<Rightarrow> db \<Rightarrow> int \<Rightarrow> string \<Rightarrow> message" where
  "report sv d uid date_str =
     (let rows = select_entries d uid date_str
      in if rows = [] then Plain msg_nothing_today
         else Markdown (render sv (report_header date_str) rows))"

subsection \<open>\<^verbatim>\<open>scheduled_daily_report\<close> (lines 244--281)\<close>

text \<open>
  \<^verbatim>\<open>send_message\<close> is awaited inside the loop with no \<^verbatim>\<open>try\<close> around it: when it raises,
  the exception leaves the loop and the function. The result is the list of the messages
  delivered and how the run ended.
\<close>

datatype outcome = Completed | Raised

definition deliver ::
  "services \<Rightarrow> int \<Rightarrow> message \<Rightarrow> (int \<times> message) list \<times> outcome
     \<Rightarrow> (int \<times> message) list \<times> outcome" where
  \<comment> \<open>one \<^verbatim>\<open>await application.bot.send_message(...)\<close>, then the rest of the loop\<close>
  "deliver sv chat_id msg rest =
     (if send_message sv chat_id msg then ((chat_id, msg) # fst rest, snd rest)
      else ([], Raised))"

fun daily_loop ::
  "services \<Rightarrow> db \<Rightarrow> string \<Rightarrow> (int \<times> int) list \<Rightarrow> (int \<times> message) list \<times> outcome" where
  "daily_loop sv d date_str [] = ([], Completed)"
| "daily_loop sv d date_str ((chat_id, uid) # us) =
     (let rows = select_entries d uid date_str
      in if rows = [] then
           deliver sv chat_id (Plain msg_nothing_today) (daily_loop sv d date_str us)
         else
           deliver sv chat_id (Markdown (render sv (daily_header date_str) rows))
             (daily_loop sv d date_str us))"

definition scheduled_daily_report ::
  "services \<Rightarrow> db \<Rightarrow> string \<Rightarrow> (int \<times> message) list \<times> outcome" where
  "scheduled_daily_report sv d date_str = daily_loop sv d date_str (select_users d)"

section \<open>Runs of the bot\<close>

text \<open>
  The updates that reach the database, in the order they are handled. \<^verbatim>\<open>report\<close> and the
  daily job only read; \<^verbatim>\<open>help_command\<close> and \<^verbatim>\<open>unknown\<close> do not touch the database.
\<close>

datatype update =
    StartCommand int int
  | TextMessage int int string string
  | ReportCommand int string
  | DailyJob string
  | OtherCommand

definition handle :: "services \<Rightarrow> db \<Rightarrow> update \<Rightarrow> db" where
  "handle sv d up = (case up of
       StartCommand uid cid \<Rightarrow> fst (start d uid cid)
     | TextMessage uid cid date_str text \<Rightarrow> fst (add_product sv d uid cid date_str text)
     | ReportCommand uid date_str \<Rightarrow> d
     | DailyJob date_str \<Rightarrow> d
     | OtherCommand \<Rightarrow> d)"

definition run :: "services \<Rightarrow> db \<Rightarrow> update list \<Rightarrow> db" where
  "run sv d ups = foldl (handle sv) d ups"

subsection \<open>Vocabulary of the statements\<close>

definition submission :: "services \<Rightarrow> string \<Rightarrow> (string \<times> pyfloat \<times> nutrition) option" where
  \<comment> \<open>what a text message hands to the \<^verbatim>\<open>INSERT\<close>, if it gets that far\<close>
  "submission sv text =
     (case parse_input sv text of
        Inl reply \<Rightarrow> None
      | Inr (product_russian, amt) \<Rightarrow>
          (case lookup sv product_russian amt of
             Inl reply \<Rightarrow> None
           | Inr n \<Rightarrow> Some (product_russian, amt, n)))"

definition appended_by ::
  "services \<Rightarrow> int \<Rightarrow> string \<Rightarrow> update \<Rightarrow> (string \<times> pyfloat \<times> nutrition) option" where
  "appended_by sv u dt up = (case up of
       TextMessage uid cid date_str text \<Rightarrow>
         if uid = u \<and> date_str = dt then submission sv text else None
     | StartCommand uid cid \<Rightarrow> None
     | ReportCommand uid date_str \<Rightarrow> None
     | DailyJob date_str \<Rightarrow> None
     | OtherCommand \<Rightarrow> None)"

definition appended ::
  "services \<Rightarrow> int \<Rightarrow> string \<Rightarrow> update list \<Rightarrow> (string \<times> pyfloat \<times> nutrition) list" where
  \<comment> \<open>the entries appended for user \<open>u\<close> and date \<open>dt\<close> by a list of updates, in order\<close>
  "appended sv u dt ups = List.map_filter (appended_by sv u dt) ups"

definition as_row :: "string \<times> pyfloat \<times> nutrition \<Rightarrow> row" where
  "as_row x = (let (name, amt, n) = x in (name, amt, kalorii n, belki n, zhiry n, uglevody n))"

definition field_sum :: "pyfloat list \<Rightarrow> pyfloat" where
  \<comment> \<open>the sum of a column, added up from zero in the order of the list\<close>
  "field_sum xs = foldl fadd (Finite 0) xs"

definition daily_message :: "services \<Rightarrow> db \<Rightarrow> string \<Rightarrow> int \<Rightarrow> message" where
  \<comment> \<open>the message the daily job builds for a user\<close>
  "daily_message sv d date_str uid =
     (let rows = select_entries d uid date_str
      in if rows = [] then Plain msg_nothing_today
         else Markdown (render sv (daily_header date_str) rows))"

definition reaches :: "services \<Rightarrow> db \<Rightarrow> string \<Rightarrow> int \<times> int \<Rightarrow> bool" where
  \<comment> \<open>the transport accepts the daily message of this row of \<^verbatim>\<open>users\<close>\<close>
  "reaches sv d date_str u = send_message sv (fst u) (daily_message sv d date_str (snd u))"

subsection \<open>Services for the examples\<close>

definition apple_data :: api_data where
  "apple_data = \<lparr>data_calories = Some (Finite 104),
     data_totalNutrients = Some [(''PROCNT'', Some (Finite (1 / 2))),
       (''FAT'', Some (Finite (3 / 10))), (''CHOCDF'', Some (Finite 28))]\<rparr>"

definition same_word :: "string \<Rightarrow> translated" where
  "same_word s = Translated (Some s)"

definition always_apple :: "string \<Rightarrow> http_response" where
  "always_apple ingr = Data apple_data"

definition always_delivers :: "int \<Rightarrow> message \<Rightarrow> bool" where
  "always_delivers chat_id msg = True"

definition chat_10_down :: "int \<Rightarrow> message \<Rightarrow> bool" where
  "chat_10_down chat_id msg = (chat_id \<noteq> 10)"

definition example_services :: services where
  \<comment> \<open>Python on ASCII text; \<open>float_str\<close> prints two decimals here\<close>
  "example_services = \<lparr>translate = same_word, http_get = always_apple,
     send_message = always_delivers, str_lower = lower, str_strip = strip,
     str_split = split, str_capitalize = capitalize, to_float = py_float,
     float_str = fmt2f\<rparr>"

definition chat_10_down_services :: services where
  "chat_10_down_services = \<lparr>translate = same_word, http_get = always_apple,
     send_message = chat_10_down, str_lower = lower, str_strip = strip,
     str_split = split, str_capitalize = capitalize, to_float = py_float,
     float_str = fmt2f\<rparr>"

definition two_users_db :: db where
  \<comment> \<open>user 1 has only registered, user 2 has recorded an apple\<close>
  "two_users_db = run example_services empty_db
     [StartCommand 1 10, TextMessage 2 20 ''2024-01-01'' ''apple 200'']"

definition three_users_db :: db where
  \<comment> \<open>user 2 registers first, from chat 10; the table is scanned by ascending user id\<close>
  "three_users_db = run example_services empty_db
     [StartCommand 2 10, StartCommand 1 20, StartCommand 3 30]"

definition same_rows_db :: db where
  \<comment> \<open>user 5 has recorded the same apple as user 2 of \<open>two_users_db\<close>\<close>
  "same_rows_db = run example_services empty_db
     [TextMessage 5 50 ''2024-01-01'' ''apple 200'', StartCommand 7 70]"

definition request_fails :: "string \<Rightarrow> http_response" where
  "request_fails ingr = RequestException"

definition lookup_down_services :: services where
  "lookup_down_services = \<lparr>translate = same_word, http_get = request_fails,
     send_message = always_delivers, str_lower = lower, str_strip = strip,
     str_split = split, str_capitalize = capitalize, to_float = py_float,
     float_str = fmt2f\<rparr>"

definition interleaved :: "update list" where
  \<comment> \<open>two accepted submissions of user 2 for 1 January, among other updates\<close>
  "interleaved = [TextMessage 2 20 ''2024-01-01'' ''apple 200'', StartCommand 1 10,
     TextMessage 1 10 ''2024-01-01'' ''apple 200'', ReportCommand 2 ''2024-01-01'',
     TextMessage 2 20 ''2024-01-02'' ''apple 200'', TextMessage 2 20 ''2024-01-01'' ''apple'',
     DailyJob ''2024-01-01'', TextMessage 2 20 ''2024-01-01'' ''apple 200'']"

definition apple_nutrition :: nutrition where
  "apple_nutrition = \<lparr>kalorii = Finite 104, belki = Finite (1 / 2),
     zhiry = Finite (3 / 10), uglevody = Finite 28\<rparr>"

section \<open>Properties\<close>

text \<open>
  C9. The three configuration values are checked when the module is loaded: when one of
  the lookup-provider credentials or the bot token is missing from the environment, loading
  raises \<^verbatim>\<open>ValueError\<close>, so nothing after the check (database, handlers, polling) runs.
\<close>

theorem config_absent_is_fatal:
  assumes "env ''EDAMAM_APP_ID'' = None \<or> env ''EDAMAM_APP_KEY'' = None
           \<or> env ''BOT_TOKEN'' = None"
  shows "load_config env = Inl ValueError"
  using assms by (auto simp: load_config_def getenv_def truthy_str_def)

theorem config_absent_is_fatal_witness:
  "load_config [''EDAMAM_APP_ID'' \<mapsto> ''id'', ''BOT_TOKEN'' \<mapsto> ''token''] = Inl ValueError"
  using config_absent_is_fatal [of "[''EDAMAM_APP_ID'' \<mapsto> ''id'', ''BOT_TOKEN'' \<mapsto> ''token'']"]
  by simp

subsection \<open>Evaluation of the examples\<close>

lemmas text_defs = lower_def lower_char_def upper_char_def upper_letters_def lower_letters_def
  strip_def split_def isspace_def capitalize_def

lemmas float_defs = py_float_def decimal_def sign_of_def is_digit_def digit_val_def

lemmas example_defs = example_services_def chat_10_down_services_def same_word_def
  always_apple_def always_delivers_def chat_10_down_def apple_data_def

lemma parse_apple_200:
  "parse_input example_services ''apple 200'' = Inr (''apple'', Finite 200)"
  by (simp add: parse_input_def example_services_def text_defs float_defs Let_def)

lemma parse_apple_200_lookup_down:
  "parse_input lookup_down_services ''apple 200'' = Inr (''apple'', Finite 200)"
  by (simp add: parse_input_def lookup_down_services_def text_defs float_defs Let_def)

lemma lookup_example:
  "lookup example_services p a =
     Inr \<lparr>kalorii = Finite 104, belki = Finite (1 / 2), zhiry = Finite (3 / 10),
          uglevody = Finite 28\<rparr>" if "p \<noteq> []"
  using that by (simp add: lookup_def get_nutrition_def quantity_of_def example_defs)

lemma lookup_down_fails: "lookup lookup_down_services p a = Inl msg_lookup_failed" if "p \<noteq> []"
  using that
  by (simp add: lookup_def get_nutrition_def lookup_down_services_def same_word_def
      request_fails_def)

lemma two_users_db_eq:
  "two_users_db = \<lparr>users = [(1, 10), (2, 20)],
     entries = [\<lparr>entry_id = 1, user_id = 2, date = ''2024-01-01'', product = ''apple'',
       amount = Finite 200, calories = Finite 104, proteins = Finite (1 / 2),
       fats = Finite (3 / 10), carbs = Finite 28\<rparr>]\<rparr>"
  by (simp add: two_users_db_def run_def handle_def start_def add_product_def parse_apple_200
      lookup_example ensure_user_def select_user_def insert_entry_def empty_db_def)

lemma same_rows_db_eq:
  "same_rows_db = \<lparr>users = [(5, 50), (7, 70)],
     entries = [\<lparr>entry_id = 1, user_id = 5, date = ''2024-01-01'', product = ''apple'',
       amount = Finite 200, calories = Finite 104, proteins = Finite (1 / 2),
       fats = Finite (3 / 10), carbs = Finite 28\<rparr>]\<rparr>"
  by (simp add: same_rows_db_def run_def handle_def start_def add_product_def parse_apple_200
      lookup_example ensure_user_def select_user_def insert_entry_def empty_db_def)

lemma three_users_db_eq:
  "three_users_db = \<lparr>users = [(2, 10), (1, 20), (3, 30)], entries = []\<rparr>"
  by (simp add: three_users_db_def run_def handle_def start_def ensure_user_def
      select_user_def empty_db_def)

lemma submission_apple_200:
  "submission example_services ''apple 200'' = Some (''apple'', Finite 200, apple_nutrition)"
  by (simp add: submission_def parse_apple_200 lookup_example apple_nutrition_def)

lemma parse_apple: "parse_input example_services ''apple'' = Inl msg_two_parts"
  by (simp add: parse_input_def example_services_def text_defs Let_def)

lemma submission_apple: "submission example_services ''apple'' = None"
  by (simp add: submission_def parse_apple)

lemma appended_interleaved:
  "appended example_services 2 ''2024-01-01'' interleaved =
     [(''apple'', Finite 200, apple_nutrition), (''apple'', Finite 200, apple_nutrition)]"
  by (simp add: appended_def interleaved_def map_filter_simps appended_by_def
      submission_apple_200 submission_apple)

lemma parse_Apple_200:
  "parse_input example_services ''Apple 200'' = Inr (''apple'', Finite 200)"
  by (simp add: parse_input_def example_services_def text_defs float_defs Let_def)

lemma parse_apple_nan: "parse_input example_services ''apple nan'' = Inr (''apple'', NaN)"
  by (simp add: parse_input_def example_services_def text_defs float_defs Let_def)

subsection \<open>The daily job\<close>

lemma daily_loop_step:
  "daily_loop sv d dt ((c, u) # us) =
     deliver sv c (daily_message sv d dt u) (daily_loop sv d dt us)"
  by (simp add: daily_message_def Let_def)

lemma reaches_Pair: "reaches sv d dt (c, u) = send_message sv c (daily_message sv d dt u)"
  by (simp add: reaches_def)

lemma daily_loop_takeWhile:
  "daily_loop sv d dt us =
     (map (\<lambda>u. (fst u, daily_message sv d dt (snd u))) (takeWhile (reaches sv d dt) us),
      if list_all (reaches sv d dt) us then Completed else Raised)"
proof (induction us)
  case Nil
  show ?case by simp
next
  case (Cons x us)
  obtain c u where x: "x = (c, u)" by (cases x)
  show ?case
    unfolding x daily_loop_step Cons.IH
    by (simp add: deliver_def reaches_Pair)
qed

text \<open>
  C1 (as the code has it). A delivery failure ends the daily cycle: the users of the snapshot
  are sent their messages in the order of the snapshot up to the first one whose send
  raises; that user and every user after it are sent nothing, and the exception leaves the
  job. When no send raises, every user of the snapshot is sent their message and the cycle
  completes.
\<close>

theorem delivery_failure_aborts_cycle:
  "scheduled_daily_report sv d dt =
     (map (\<lambda>u. (fst u, daily_message sv d dt (snd u)))
        (takeWhile (reaches sv d dt) (select_users d)),
      if list_all (reaches sv d dt) (select_users d) then Completed else Raised)"
  unfolding scheduled_daily_report_def by (rule daily_loop_takeWhile)

theorem delivery_failure_aborts_cycle_witness:
  "select_users three_users_db = [(20, 1), (10, 2), (30, 3)]
   \<and> scheduled_daily_report chat_10_down_services three_users_db ''2024-01-01'' =
       ([(20, Plain msg_nothing_today)], Raised)"
  unfolding delivery_failure_aborts_cycle
  by (simp add: three_users_db_eq select_users_def select_entries_def reaches_def
      daily_message_def example_defs)

text \<open>
  C1 as stated fails: user 1 (chat 10) comes first in the snapshot and the send to chat 10
  raises; user 2 has an entry for the day and chat 20 is reachable, yet no report is sent to
  it.
\<close>

theorem later_user_not_served_counterexample:
  "select_users two_users_db = [(10, 1), (20, 2)]
   \<and> select_entries two_users_db 2 ''2024-01-01'' \<noteq> []
   \<and> \<not> send_message chat_10_down_services 10
         (daily_message chat_10_down_services two_users_db ''2024-01-01'' 1)
   \<and> send_message chat_10_down_services 20
         (daily_message chat_10_down_services two_users_db ''2024-01-01'' 2)
   \<and> scheduled_daily_report chat_10_down_services two_users_db ''2024-01-01'' = ([], Raised)"
  by (simp add: two_users_db_eq scheduled_daily_report_def select_users_def select_entries_def
      deliver_def example_defs)

lemma nth_daily_loop:
  "i < length (fst (daily_loop sv d dt us)) \<Longrightarrow>
     i < length us \<and>
     fst (daily_loop sv d dt us) ! i = (fst (us ! i), daily_message sv d dt (snd (us ! i)))"
  unfolding daily_loop_takeWhile
  by (simp add: takeWhile_nth) (meson length_takeWhile_le order_less_le_trans)

text \<open>
  C6. A user without entries for the date gets the fixed message: \<^verbatim>\<open>report\<close> replies
  with it, sent plain, and it is not the rendering of an empty list of rows; in the daily
  job, the message delivered to a user of the snapshot who has no entries is that same
  fixed message.
\<close>

theorem empty_day_fixed_message:
  "(select_entries d uid dt = [] \<longrightarrow>
      report sv d uid dt = Plain msg_nothing_today
      \<and> report sv d uid dt \<noteq> Markdown (render sv (report_header dt) []))
   \<and> (i < length (fst (scheduled_daily_report sv d dt))
        \<and> select_entries d (snd (select_users d ! i)) dt = []
      \<longrightarrow> fst (scheduled_daily_report sv d dt) ! i
            = (fst (select_users d ! i), Plain msg_nothing_today))"
proof (intro conjI impI)
  assume e: "select_entries d uid dt = []"
  then show "report sv d uid dt = Plain msg_nothing_today"
    by (simp add: report_def)
  from e show "report sv d uid dt \<noteq> Markdown (render sv (report_header dt) [])"
    by (simp add: report_def)
next
  assume a: "i < length (fst (scheduled_daily_report sv d dt))
    \<and> select_entries d (snd (select_users d ! i)) dt = []"
  then have "fst (scheduled_daily_report sv d dt) ! i
      = (fst (select_users d ! i), daily_message sv d dt (snd (select_users d ! i)))"
    unfolding scheduled_daily_report_def using nth_daily_loop by blast
  with a show "fst (scheduled_daily_report sv d dt) ! i
      = (fst (select_users d ! i), Plain msg_nothing_today)"
    by (simp add: daily_message_def)
qed

theorem empty_day_fixed_message_witness:
  "select_entries two_users_db 1 ''2024-01-01'' = []
   \<and> report example_services two_users_db 1 ''2024-01-01'' = Plain msg_nothing_today
   \<and> (0::nat) < length (fst (scheduled_daily_report example_services two_users_db ''2024-01-01''))
   \<and> select_entries two_users_db (snd (select_users two_users_db ! 0)) ''2024-01-01'' = []
   \<and> fst (scheduled_daily_report example_services two_users_db ''2024-01-01'') ! 0
       = (10, Plain msg_nothing_today)"
proof -
  have e: "select_entries two_users_db 1 ''2024-01-01'' = []"
    by (simp add: two_users_db_eq select_entries_def)
  have u: "select_users two_users_db = [(10, 1), (20, 2)]"
    by (simp add: two_users_db_eq select_users_def)
  have l: "(0::nat) < length (fst (scheduled_daily_report example_services two_users_db ''2024-01-01''))"
    by (simp add: scheduled_daily_report_def u deliver_def example_defs Let_def)
  from empty_day_fixed_message [of two_users_db 1 "''2024-01-01''" example_services 0] e u l
  show ?thesis by simp
qed

subsection \<open>The report text\<close>

text \<open>
  C8. The report text is a function of the date and of the rows selected: two requests that
  select the same rows for the same date, whatever else the database holds and whoever asks,
  get the same message, character for character; so do two users of the daily job.
\<close>

theorem report_text_deterministic:
  "select_entries d1 u1 dt = select_entries d2 u2 dt \<Longrightarrow>
     report sv d1 u1 dt = report sv d2 u2 dt
     \<and> daily_message sv d1 dt u1 = daily_message sv d2 dt u2"
  by (simp add: report_def daily_message_def)

theorem report_text_deterministic_witness:
  "select_entries two_users_db 2 ''2024-01-01'' = select_entries same_rows_db 5 ''2024-01-01''
   \<and> two_users_db \<noteq> same_rows_db
   \<and> report example_services two_users_db 2 ''2024-01-01''
       = report example_services same_rows_db 5 ''2024-01-01''
   \<and> daily_message example_services two_users_db ''2024-01-01'' 2
       = daily_message example_services same_rows_db ''2024-01-01'' 5"
proof -
  have r: "select_entries two_users_db 2 ''2024-01-01''
      = select_entries same_rows_db 5 ''2024-01-01''"
    by (simp add: two_users_db_eq same_rows_db_eq select_entries_def row_of_def)
  have n: "two_users_db \<noteq> same_rows_db"
    by (simp add: two_users_db_eq same_rows_db_eq)
  from report_text_deterministic [OF r, of example_services] r n show ?thesis by simp
qed

subsection \<open>Registration\<close>

lemma select_user_ensure_user:
  "select_user (ensure_user d uid cid) uid \<noteq> None"
  by (auto simp: ensure_user_def select_user_def find_None_iff)

lemma ensure_user_again:
  "ensure_user (ensure_user d uid c1) uid c2 = ensure_user d uid c1"
  using select_user_ensure_user [of d uid c1]
  by (simp add: ensure_user_def [of "ensure_user d uid c1"])

lemma users_add_product:
  "users (fst (add_product sv d uid cid dt input)) = users d
   \<or> users (fst (add_product sv d uid cid dt input)) = users (ensure_user d uid cid)"
  by (simp add: add_product_def insert_entry_def split: sum.splits prod.splits)

lemma filter_users_fresh:
  "select_user d uid = None \<Longrightarrow> filter (\<lambda>u. fst u = uid) (users d) = []"
  by (auto simp: select_user_def find_None_iff filter_empty_conv)

text \<open>
  C4. Registration is idempotent. For a user not yet in the table, \<^verbatim>\<open>start\<close> creates
  exactly one row, with the chat of that call; a second \<^verbatim>\<open>start\<close> with another chat
  leaves the database as it is, and so does the registration step of a text message for
  the table of users.
\<close>

theorem registration_idempotent:
  assumes "select_user d uid = None"
  shows "filter (\<lambda>u. fst u = uid) (users (fst (start d uid c1))) = [(uid, c1)]
       \<and> fst (start (fst (start d uid c1)) uid c2) = fst (start d uid c1)
       \<and> users (fst (add_product sv (fst (start d uid c1)) uid c2 dt input))
           = users (fst (start d uid c1))"
proof (intro conjI)
  show "filter (\<lambda>u. fst u = uid) (users (fst (start d uid c1))) = [(uid, c1)]"
    using assms filter_users_fresh [OF assms] by (simp add: start_def ensure_user_def)
  show "fst (start (fst (start d uid c1)) uid c2) = fst (start d uid c1)"
    by (simp add: start_def ensure_user_again)
  show "users (fst (add_product sv (fst (start d uid c1)) uid c2 dt input))
           = users (fst (start d uid c1))"
    using users_add_product [of sv "ensure_user d uid c1" uid c2 dt input]
    by (auto simp: start_def ensure_user_again)
qed

theorem registration_idempotent_witness:
  "select_user two_users_db 7 = None
   \<and> filter (\<lambda>u. fst u = 7) (users (fst (start two_users_db 7 70))) = [(7, 70)]
   \<and> fst (start (fst (start two_users_db 7 70)) 7 71) = fst (start two_users_db 7 70)
   \<and> users (fst (add_product example_services (fst (start two_users_db 7 70)) 7 71
        ''2024-01-01'' ''apple 200'')) = [(1, 10), (2, 20), (7, 70)]"
proof -
  have f: "select_user two_users_db 7 = None"
    by (simp add: two_users_db_eq select_user_def)
  have u: "users (fst (start two_users_db 7 70)) = [(1, 10), (2, 20), (7, 70)]"
    by (simp add: start_def ensure_user_def f) (simp add: two_users_db_eq)
  from registration_idempotent [OF f, of 70 71 example_services "''2024-01-01''" "''apple 200''"] f u
  show ?thesis by simp
qed

subsection \<open>Submissions\<close>

text \<open>
  C7. When the input has passed validation and the translation raises or gives nothing, or
  the nutrient request raises or its answer has no nutrients, \<^verbatim>\<open>add_product\<close> leaves the
  database as it was and replies with one of the three corrective messages.
\<close>

theorem lookup_failure_no_entry:
  assumes "parse_input sv input = Inr (p, a)"
    and "translate sv p = TranslateRaises \<or> translate sv p = Translated None
         \<or> translate sv p = Translated (Some [])
         \<or> (\<exists>e. translate sv p = Translated (Some e)
              \<and> (http_get sv (float_str sv a @ ''g '' @ e) = RequestException
                 \<or> http_get sv (float_str sv a @ ''g '' @ e) = OtherException
                 \<or> (\<exists>data. http_get sv (float_str sv a @ ''g '' @ e) = Data data
                      \<and> (data_totalNutrients data = None
                         \<or> data_totalNutrients data = Some []))))"
  shows "fst (add_product sv d uid cid dt input) = d
       \<and> snd (add_product sv d uid cid dt input)
           \<in> {Plain msg_translate_error, Plain msg_translate_empty, Plain msg_lookup_failed}"
proof -
  have "\<exists>reply. lookup sv p a = Inl reply
      \<and> reply \<in> {msg_translate_error, msg_translate_empty, msg_lookup_failed}"
    using assms(2)
  proof (elim disjE exE conjE)
    fix e assume "translate sv p = Translated (Some e)"
      and "http_get sv (float_str sv a @ ''g '' @ e) = RequestException"
    then show ?thesis by (simp add: lookup_def get_nutrition_def)
  next
    fix e assume "translate sv p = Translated (Some e)"
      and "http_get sv (float_str sv a @ ''g '' @ e) = OtherException"
    then show ?thesis by (simp add: lookup_def get_nutrition_def)
  next
    fix e data assume "translate sv p = Translated (Some e)"
      and "http_get sv (float_str sv a @ ''g '' @ e) = Data data"
      and "data_totalNutrients data = None"
    then show ?thesis by (simp add: lookup_def get_nutrition_def)
  next
    fix e data assume "translate sv p = Translated (Some e)"
      and "http_get sv (float_str sv a @ ''g '' @ e) = Data data"
      and "data_totalNutrients data = Some []"
    then show ?thesis by (simp add: lookup_def get_nutrition_def)
  qed (simp_all add: lookup_def)
  then show ?thesis using assms(1) by (auto simp: add_product_def)
qed

theorem lookup_failure_no_entry_witness:
  "parse_input lookup_down_services ''apple 200'' = Inr (''apple'', Finite 200)
   \<and> translate lookup_down_services ''apple'' = Translated (Some ''apple'')
   \<and> http_get lookup_down_services
        (float_str lookup_down_services (Finite 200) @ ''g '' @ ''apple'') = RequestException
   \<and> add_product lookup_down_services two_users_db 2 20 ''2024-01-01'' ''apple 200''
       = (two_users_db, Plain msg_lookup_failed)"
proof -
  have t: "translate lookup_down_services ''apple'' = Translated (Some ''apple'')"
    by (simp add: lookup_down_services_def same_word_def)
  have h: "http_get lookup_down_services
        (float_str lookup_down_services (Finite 200) @ ''g '' @ ''apple'') = RequestException"
    by (simp add: lookup_down_services_def request_fails_def)
  have r: "snd (add_product lookup_down_services two_users_db 2 20 ''2024-01-01'' ''apple 200'')
      = Plain msg_lookup_failed"
    by (simp add: add_product_def parse_apple_200_lookup_down lookup_down_fails)
  from lookup_failure_no_entry [OF parse_apple_200_lookup_down, of two_users_db 2 20
      "''2024-01-01''"] t h r
  show ?thesis by (simp add: parse_apple_200_lookup_down prod_eq_iff)
qed

subsection \<open>The ledger\<close>

lemma entries_ensure_user: "entries (ensure_user d uid cid) = entries d"
  by (simp add: ensure_user_def)

lemma select_entries_append_row:
  "select_entries (insert_entry d uid dt p a n) u dt' =
     select_entries d u dt' @ (if uid = u \<and> dt = dt' then [as_row (p, a, n)] else [])"
  by (simp add: select_entries_def insert_entry_def row_of_def as_row_def)

lemma select_entries_ensure_user:
  "select_entries (ensure_user d uid cid) u dt = select_entries d u dt"
  by (simp add: select_entries_def entries_ensure_user)

lemma select_entries_add_product:
  "select_entries (fst (add_product sv d uid cid dt input)) u dt' =
     select_entries d u dt' @
       (if uid = u \<and> dt = dt'
        then map as_row (case submission sv input of None \<Rightarrow> [] | Some x \<Rightarrow> [x]) else [])"
  by (simp add: add_product_def submission_def select_entries_append_row
      select_entries_ensure_user split: sum.splits prod.splits)

lemma select_entries_handle:
  "select_entries (handle sv d up) u dt =
     select_entries d u dt
       @ map as_row (case appended_by sv u dt up of None \<Rightarrow> [] | Some x \<Rightarrow> [x])"
  by (cases up)
     (simp_all add: handle_def appended_by_def start_def select_entries_ensure_user
        select_entries_add_product)

lemma appended_Cons:
  "appended sv u dt (up # ups) =
     (case appended_by sv u dt up of None \<Rightarrow> [] | Some x \<Rightarrow> [x]) @ appended sv u dt ups"
  by (simp add: appended_def map_filter_simps split: option.splits)

lemma select_entries_run:
  "select_entries (run sv d ups) u dt = select_entries d u dt @ map as_row (appended sv u dt ups)"
proof (induction ups arbitrary: d)
  case Nil
  show ?case by (simp add: run_def appended_def map_filter_simps)
next
  case (Cons up ups)
  have "run sv d (up # ups) = run sv (handle sv d up) ups" by (simp add: run_def)
  then show ?case
    by (simp add: Cons.IH select_entries_handle appended_Cons)
qed



subsection \<open>Aggregation\<close>

lemma report_loop_sums:
  "report_loop sv rows ((a, b, c, e), ls) =
     ((foldl fadd a (map (\<lambda>r. fst (snd (snd r))) rows),
       foldl fadd b (map (\<lambda>r. fst (snd (snd (snd r)))) rows),
       foldl fadd c (map (\<lambda>r. fst (snd (snd (snd (snd r))))) rows),
       foldl fadd e (map (\<lambda>r. snd (snd (snd (snd (snd r))))) rows)),
      ls @ map (report_line sv) rows)"
  by (induction rows arbitrary: a b c e ls) (auto simp: Let_def)

lemma aggregate_sums:
  "aggregate sv (map as_row xs) =
     (field_sum (map (\<lambda>x. kalorii (snd (snd x))) xs),
      field_sum (map (\<lambda>x. belki (snd (snd x))) xs),
      field_sum (map (\<lambda>x. zhiry (snd (snd x))) xs),
      field_sum (map (\<lambda>x. uglevody (snd (snd x))) xs))"
  by (simp add: aggregate_def zero_totals_def report_loop_sums field_sum_def as_row_def
      comp_def case_prod_beta)

text \<open>
  C2. Starting from the empty database, after any list of updates the totals computed over
  the rows of a user and a date are, field by field, the sums of the nutrient values of
  the entries appended for that user and date, whatever the other users did in between;
  over no rows the totals are all zero.
\<close>

theorem aggregate_is_fieldwise_sum:
  "aggregate sv (select_entries (run sv empty_db ups) u dt) =
     (field_sum (map (\<lambda>x. kalorii (snd (snd x))) (appended sv u dt ups)),
      field_sum (map (\<lambda>x. belki (snd (snd x))) (appended sv u dt ups)),
      field_sum (map (\<lambda>x. zhiry (snd (snd x))) (appended sv u dt ups)),
      field_sum (map (\<lambda>x. uglevody (snd (snd x))) (appended sv u dt ups)))
   \<and> aggregate sv [] = (Finite 0, Finite 0, Finite 0, Finite 0)"
proof
  have "select_entries empty_db u dt = []" by (simp add: select_entries_def empty_db_def)
  then show "aggregate sv (select_entries (run sv empty_db ups) u dt) =
     (field_sum (map (\<lambda>x. kalorii (snd (snd x))) (appended sv u dt ups)),
      field_sum (map (\<lambda>x. belki (snd (snd x))) (appended sv u dt ups)),
      field_sum (map (\<lambda>x. zhiry (snd (snd x))) (appended sv u dt ups)),
      field_sum (map (\<lambda>x. uglevody (snd (snd x))) (appended sv u dt ups)))"
    by (simp add: select_entries_run aggregate_sums)
  show "aggregate sv [] = (Finite 0, Finite 0, Finite 0, Finite 0)"
    by (simp add: aggregate_def zero_totals_def)
qed

theorem aggregate_is_fieldwise_sum_witness:
  "aggregate example_services
      (select_entries (run example_services empty_db interleaved) 2 ''2024-01-01'') =
     (Finite 208, Finite 1, Finite (3 / 5), Finite 56)"
  using aggregate_is_fieldwise_sum [of example_services interleaved 2 "''2024-01-01''"]
  by (simp add: appended_interleaved field_sum_def apple_nutrition_def)

subsection \<open>The stored product name\<close>

text \<open>
  C3 (as the code has it). The product name is stored as the words of the lower-cased
  message but the last, joined by single blanks: lower-cased and with its whitespace
  normalised, not as it was typed. The first-letter capital is not stored; it is put on the
  name when a report line is formatted. Lower-casing, stripping, splitting and capitalizing
  are Python's own, whatever the alphabet of the message.
\<close>

theorem stored_name_normalised:
  assumes "entries (fst (add_product sv d uid cid dt input)) \<noteq> entries d"
  shows "\<exists>e. entries (fst (add_product sv d uid cid dt input)) = entries d @ [e]
           \<and> product e
               = join '' '' (butlast (str_split sv (str_strip sv (str_lower sv input))))
           \<and> take (2 + length (str_capitalize sv (product e))) (report_line sv (row_of e))
               = ''- '' @ str_capitalize sv (product e)"
proof (cases "parse_input sv input")
  case (Inl reply)
  with assms show ?thesis by (simp add: add_product_def)
next
  case (Inr pa)
  obtain p a where pa: "pa = (p, a)" by (cases pa)
  have p: "p = join '' '' (butlast (str_split sv (str_strip sv (str_lower sv input))))"
    using Inr unfolding pa parse_input_def
    by (simp add: Let_def split: if_splits option.splits)
  show ?thesis
  proof (cases "lookup sv p a")
    case (Inl reply)
    with assms Inr pa show ?thesis by (simp add: add_product_def)
  next
    case (Inr n)
    with \<open>parse_input sv input = Inr pa\<close> pa p show ?thesis
      by (simp add: add_product_def insert_entry_def ensure_user_def report_line_def
          row_of_def)
  qed
qed

theorem stored_name_normalised_witness:
  "entries (fst (add_product example_services empty_db 1 10 ''2024-01-01'' ''Green  Apple 200''))
     \<noteq> entries empty_db
   \<and> (\<exists>e. entries (fst (add_product example_services empty_db 1 10 ''2024-01-01''
               ''Green  Apple 200'')) = entries empty_db @ [e]
           \<and> product e = ''green apple''
           \<and> take 13 (report_line example_services (row_of e)) = ''- Green apple'')"
proof -
  have p: "parse_input example_services ''Green  Apple 200''
      = Inr (''green apple'', Finite 200)"
    by (simp add: parse_input_def example_services_def text_defs float_defs Let_def)
  have n: "entries (fst (add_product example_services empty_db 1 10 ''2024-01-01''
      ''Green  Apple 200'')) \<noteq> entries empty_db"
    by (simp add: add_product_def p lookup_example insert_entry_def ensure_user_def
        empty_db_def)
  have j: "join '' '' (butlast (str_split example_services (str_strip example_services
      (str_lower example_services ''Green  Apple 200'')))) = ''green apple''"
    by (simp add: example_services_def text_defs)
  have c: "str_capitalize example_services ''green apple'' = ''Green apple''"
    by (simp add: example_services_def text_defs)
  from stored_name_normalised [OF n] obtain e where
    "entries (fst (add_product example_services empty_db 1 10 ''2024-01-01''
        ''Green  Apple 200'')) = entries empty_db @ [e]"
    "product e = ''green apple''"
    "take (2 + length (str_capitalize example_services (product e)))
        (report_line example_services (row_of e))
       = ''- '' @ str_capitalize example_services (product e)"
    unfolding j by blast
  with n c show ?thesis by auto
qed

text \<open>
  C3 as stated fails: the message \<^verbatim>\<open>Apple 200\<close> stores the product \<^verbatim>\<open>apple\<close>, which is
  not the name as it was entered.
\<close>

theorem stored_name_not_verbatim_counterexample:
  "map product (entries (fst (add_product example_services empty_db 1 10 ''2024-01-01''
       ''Apple 200''))) = [''apple'']
   \<and> ''apple'' \<noteq> ''Apple''"
  by (simp add: add_product_def parse_Apple_200 lookup_example insert_entry_def
      ensure_user_def empty_db_def)

subsection \<open>The amount\<close>

lemma in_range_iff:
  "q \<noteq> NaN \<Longrightarrow>
     (\<not> fle q (Finite 0) \<and> \<not> fgt q (Finite 5000)) = (fgt q (Finite 0) \<and> fle q (Finite 5000))"
  by (cases q) auto

lemma parse_input_accepts_iff:
  "(\<exists>p. parse_input sv input = Inr (p, q)) \<longleftrightarrow>
     str_strip sv (str_lower sv input) \<noteq> []
     \<and> 2 \<le> length (str_split sv (str_strip sv (str_lower sv input)))
     \<and> to_float sv (last (str_split sv (str_strip sv (str_lower sv input)))) = Some q
     \<and> \<not> fle q (Finite 0) \<and> \<not> fgt q (Finite 5000)"
  by (auto simp: parse_input_def Let_def split_def split: option.splits if_splits)

text \<open>
  C10. The amount is accepted when neither \<^verbatim>\<open>amount <= 0\<close> nor \<^verbatim>\<open>amount > 5000\<close> holds.
  For every amount but NaN that is \<open>0 < amount \<le> 5000\<close> (the two lemmas above); the message
  \<^verbatim>\<open>apple nan\<close> parses to NaN, for which both comparisons are false: it is accepted and,
  the lookup succeeding, an entry with the amount NaN is inserted, although
  \<open>0 < NaN \<le> 5000\<close> does not hold.
\<close>

theorem nan_amount_accepted:
  "parse_input example_services ''apple nan'' = Inr (''apple'', NaN)
   \<and> \<not> (fgt NaN (Finite 0) \<and> fle NaN (Finite 5000))
   \<and> map amount (entries (fst (add_product example_services empty_db 1 10 ''2024-01-01''
        ''apple nan''))) = [NaN]"
  by (simp add: add_product_def parse_apple_nan lookup_example insert_entry_def
      ensure_user_def empty_db_def)


end
